theory Spec2Isabelle
  imports Complex_Main
begin

section \<open>Exceptions\<close>

text \<open>
  Python exceptions are values. The handlers of the program are all written
  \<^verbatim>\<open>except Exception\<close>, which catches every subclass of \<open>Exception\<close> and lets the
  other subclasses of \<open>BaseException\<close> (KeyboardInterrupt, SystemExit) through.
\<close>

datatype py_exn =
    ZeroDivisionError
  | IndexError
  | ValueError string
  | TypeError string
  | OtherException string
  | NonException string

fun is_Exception :: "py_exn \<Rightarrow> bool" where
  "is_Exception (NonException _) = False"
| "is_Exception _ = True"

section \<open>Batcher: \<^verbatim>\<open>DataProcessor.split_data_into_chunks\<close>\<close>

text \<open>
  A dataframe is the list of its rows. \<^verbatim>\<open>math.ceil(len(df) / self.config.chunk_size)\<close>
  divides in floating point, which is exact enough for every length below \<open>2 ^ 53\<close>; the
  model divides in the rationals.
\<close>

definition chunk_amount :: "int \<Rightarrow> 'a list \<Rightarrow> py_exn + int" where
  "chunk_amount chunk_size df =
     (if chunk_size = 0 then Inl ZeroDivisionError
      else Inr \<lceil>(of_nat (length df) :: rat) / of_int chunk_size\<rceil>)"

text \<open>
  \<^verbatim>\<open>numpy.array_split(ary, Nsections)\<close> with an integer number of sections:
  \<^verbatim>\<open>
    if Nsections <= 0:
        raise ValueError('number sections must be larger than 0.')
    Neach_section, extras = divmod(Ntotal, Nsections)
    section_sizes = ([0] + extras * [Neach_section+1] +
                     (Nsections-extras) * [Neach_section])
    div_points = array(section_sizes).cumsum()
    for i in range(Nsections):
        st = div_points[i]; end = div_points[i + 1]
        sub_arys.append(sary[st:end])
  \<close>
\<close>

fun cumsum_from :: "nat \<Rightarrow> nat list \<Rightarrow> nat list" where
  "cumsum_from acc [] = []"
| "cumsum_from acc (x # xs) = (acc + x) # cumsum_from (acc + x) xs"

definition cumsum :: "nat list \<Rightarrow> nat list" where
  "cumsum xs = cumsum_from 0 xs"

definition slice :: "'a list \<Rightarrow> nat \<Rightarrow> nat \<Rightarrow> 'a list" where
  "slice xs st en = take (en - st) (drop st xs)"

definition section_sizes :: "nat \<Rightarrow> nat \<Rightarrow> nat list" where
  "section_sizes Ntotal Nsections =
     (let Neach_section = Ntotal div Nsections; extras = Ntotal mod Nsections
      in [0] @ replicate extras (Neach_section + 1)
             @ replicate (Nsections - extras) Neach_section)"

definition array_split :: "'a list \<Rightarrow> int \<Rightarrow> py_exn + 'a list list" where
  "array_split ary indices_or_sections =
     (if indices_or_sections \<le> 0
      then Inl (ValueError ''number sections must be larger than 0.'')
      else
        let Ntotal = length ary;
            Nsections = nat indices_or_sections;
            div_points = cumsum (section_sizes Ntotal Nsections)
        in Inr (map (\<lambda>i. slice ary (div_points ! i) (div_points ! (i + 1)))
                    [0..<Nsections]))"

definition split_data_into_chunks :: "int \<Rightarrow> 'a list \<Rightarrow> py_exn + 'a list list" where
  "split_data_into_chunks chunk_size df =
     (case chunk_amount chunk_size df of
        Inl e \<Rightarrow> Inl e
      | Inr n \<Rightarrow> array_split df n)"

section \<open>Text\<close>

text \<open>
  A Python \<^verbatim>\<open>str\<close> is a sequence of Unicode code points; a code point is a natural
  number. \<open>ustr\<close> reads an ASCII literal.
\<close>

type_synonym pystr = "nat list"

definition ustr :: "string \<Rightarrow> pystr" where
  "ustr s = map of_char s"

definition NL :: nat where "NL = 10"
definition SPACE :: nat where "SPACE = 32"
definition COMMA :: nat where "COMMA = 44"

text \<open>The code points for which \<^verbatim>\<open>str.isspace\<close> holds; \<^verbatim>\<open>str.strip()\<close> removes them.\<close>

definition is_space :: "nat \<Rightarrow> bool" where
  "is_space c \<longleftrightarrow>
     (9 \<le> c \<and> c \<le> 13) \<or> (28 \<le> c \<and> c \<le> 32) \<or> c = 133 \<or> c = 160 \<or> c = 5760
     \<or> (8192 \<le> c \<and> c \<le> 8202) \<or> c = 8232 \<or> c = 8233 \<or> c = 8239 \<or> c = 8287
     \<or> c = 12288"

definition strip :: "pystr \<Rightarrow> pystr" where
  "strip s = rev (dropWhile is_space (rev (dropWhile is_space s)))"

text \<open>\<^verbatim>\<open>s.split(sep)\<close> for a separator of one character: one piece more than separators.\<close>

fun split_on :: "nat \<Rightarrow> pystr \<Rightarrow> pystr list" where
  "split_on sep [] = [[]]"
| "split_on sep (c # cs) =
     (if c = sep then [] # split_on sep cs
      else (case split_on sep cs of
              [] \<Rightarrow> [[c]]
            | p # ps \<Rightarrow> (c # p) # ps))"

fun join :: "pystr \<Rightarrow> pystr list \<Rightarrow> pystr" where
  "join sep [] = []"
| "join sep [x] = x"
| "join sep (x # y # ys) = x @ sep @ join sep (y # ys)"

definition replace_char :: "nat \<Rightarrow> nat \<Rightarrow> pystr \<Rightarrow> pystr" where
  "replace_char old new s = map (\<lambda>c. if c = old then new else c) s"

section \<open>Result parser: \<^verbatim>\<open>DataProcessor._parse_results\<close>\<close>

text \<open>
  A model response carries its text in \<^verbatim>\<open>content\<close>. The output dataframe is its column
  names and its rows; a row is the list of its fields, kept as text.
\<close>

record chain_result =
  content :: pystr

record dataframe =
  columns :: "string list"
  rows :: "pystr list list"

text \<open>The inner loop, over the lines of one response, with the accumulator \<^verbatim>\<open>parsed_rows\<close>.\<close>

fun parse_lines :: "pystr list \<Rightarrow> pystr list list \<Rightarrow> pystr list list" where
  "parse_lines [] parsed_rows = parsed_rows"
| "parse_lines (line # lines) parsed_rows =
     (let values = map strip (split_on COMMA line)
      in if length values = 3 then parse_lines lines (parsed_rows @ [values])
         else parse_lines lines parsed_rows)"

text \<open>The outer loop, over the responses.\<close>

fun parse_loop :: "chain_result list \<Rightarrow> pystr list list \<Rightarrow> pystr list list" where
  "parse_loop [] parsed_rows = parsed_rows"
| "parse_loop (result # results) parsed_rows =
     (let lines = split_on NL (strip (content result))
      in parse_loop results (parse_lines lines parsed_rows))"

definition parse_results :: "chain_result list \<Rightarrow> dataframe" where
  "parse_results results =
     \<lparr>columns = [''Daily Frequency'', ''Dose'', ''Duration''],
      rows = parse_loop results []\<rparr>"

section \<open>Spreadsheet cells and the library\<close>

text \<open>
  A cell of a loaded spreadsheet is missing (\<open>NA\<close>: NaN, None, NaT, what
  \<^verbatim>\<open>pd.isna\<close> reports), a number, a text, or another object such as a timestamp. A row
  is the list of its cells by column name, so \<^verbatim>\<open>row.get(name, default)\<close> is a lookup
  and \<^verbatim>\<open>chunk.values\<close> lists the cells in column order. A Python float is a finite
  value, an infinity or NaN.
\<close>

datatype cell = NA | Number rat | Text pystr | Other string

datatype pyfloat = Fin rat | PosInf | NegInf | NaN

text \<open>
  What \<^verbatim>\<open>float()\<close> reads from a decimal literal: the rounded value, or an infinity
  when the literal is too large for a float, as \<^verbatim>\<open>float('1e999')\<close> is \<open>inf\<close>.
\<close>

datatype literal_value = Rounded rat | OverflowPos | OverflowNeg

type_synonym row = "(string \<times> cell) list"

text \<open>
  \<^verbatim>\<open>ProcessingConfig\<close>, and the library calls the two programs make: opening the
  persisted index and the model, reading the spreadsheet, \<^verbatim>\<open>str()\<close> of a cell that
  is not a text, the value \<^verbatim>\<open>float()\<close> reads from a decimal literal, the similarity
  search, the formatting of a metadata value inside an f-string, the invocation of the
  prompt-and-model chain, and the embedding of one text. Each one that can raise returns
  its exception. A document carries its metadata as a dictionary.
\<close>

record processing_config =
  model_num :: int
  chunk_size :: int
  vector_db_path :: string
  similarity_search_k :: int

record 'v document =
  page_content :: pystr
  metadata :: "(string \<times> 'v) list"

record chain_input =
  data :: pystr
  reference :: pystr
  prompt :: pystr
  format :: pystr

record ('v, 'vec) backend =
  open_vectorstore :: "string \<Rightarrow> py_exn option"
  open_model :: "string \<Rightarrow> py_exn option"
  read_excel :: "string \<Rightarrow> py_exn + row list"
  str_cell :: "cell \<Rightarrow> pystr"
  float_literal :: "pystr \<Rightarrow> literal_value option"
  similarity_search :: "pystr \<Rightarrow> int \<Rightarrow> py_exn + 'v document list"
  format_value :: "'v \<Rightarrow> py_exn + pystr"
  invoke :: "chain_input \<Rightarrow> py_exn + chain_result"
  embed_text :: "pystr \<Rightarrow> py_exn + 'vec"

text \<open>\<^verbatim>\<open>str(x)\<close> of a cell: a text is itself.\<close>

definition py_str :: "('v, 'vec) backend \<Rightarrow> cell \<Rightarrow> pystr" where
  "py_str be c = (case c of Text s \<Rightarrow> s | _ \<Rightarrow> str_cell be c)"

definition bind_exn :: "py_exn + 'a \<Rightarrow> ('a \<Rightarrow> py_exn + 'b) \<Rightarrow> py_exn + 'b" where
  "bind_exn m f = (case m of Inl e \<Rightarrow> Inl e | Inr v \<Rightarrow> f v)"

text \<open>\<^verbatim>\<open>try: body  except Exception as e: handler\<close>\<close>

definition try_except_Exception ::
  "py_exn + 'a \<Rightarrow> (py_exn \<Rightarrow> py_exn + 'a) \<Rightarrow> py_exn + 'a" where
  "try_except_Exception body handler =
     (case body of
        Inr v \<Rightarrow> Inr v
      | Inl e \<Rightarrow> if is_Exception e then handler e else Inl e)"

section \<open>Initialisation: \<^verbatim>\<open>choose_model\<close>, \<^verbatim>\<open>initialize_rag_system\<close>\<close>

definition models :: "string list" where
  "models = [''qwen3:14b'', ''qwen3:32b'', ''llama3.2:latest'', ''gpt-oss:20b'']"

definition choose_model :: "('v, 'vec) backend \<Rightarrow> int \<Rightarrow> py_exn option" where
  "choose_model be n =
     (let len = int (length models); j = (if n < 0 then len + n else n)
      in if 0 \<le> j \<and> j < len then open_model be (models ! nat j)
         else Some IndexError)"

definition initialize_rag_system ::
  "processing_config \<Rightarrow> ('v, 'vec) backend \<Rightarrow> py_exn option" where
  "initialize_rag_system cfg be =
     (case open_vectorstore be (vector_db_path cfg) of
        Some e \<Rightarrow> Some e
      | None \<Rightarrow> choose_model be (model_num cfg))"

section \<open>Retriever: \<^verbatim>\<open>DataProcessor._get_reference_examples\<close>\<close>

text \<open>\<^verbatim>\<open>f"{metadata.get(key, default)}"\<close>, the default already rendered.\<close>

definition format_get ::
  "('v, 'vec) backend \<Rightarrow> (string \<times> 'v) list \<Rightarrow> string \<Rightarrow> pystr \<Rightarrow> py_exn + pystr" where
  "format_get be md key dflt =
     (case map_of md key of
        None \<Rightarrow> Inr dflt
      | Some v \<Rightarrow> format_value be v)"

definition QUOTE :: nat where "QUOTE = 39"

definition format_example ::
  "('v, 'vec) backend \<Rightarrow> 'v document \<Rightarrow> py_exn + pystr" where
  "format_example be doc =
     (let md = metadata doc in
      bind_exn (format_get be md ''raw_antibiotic_name'' []) (\<lambda>name.
      bind_exn (format_get be md ''raw_dose_quantity'' []) (\<lambda>quantity.
      bind_exn (format_get be md ''patient_instructions'' []) (\<lambda>instructions.
      bind_exn (format_get be md ''clean_frequency'' (ustr ''0'')) (\<lambda>frequency.
      bind_exn (format_get be md ''clean_dose'' (ustr ''0'')) (\<lambda>dose.
      bind_exn (format_get be md ''clean_duration'' (ustr ''0'')) (\<lambda>duration.
        Inr (ustr ''Example Input: Raw Antibiotic: '' @ [QUOTE] @ name @ [QUOTE]
             @ ustr '' | Raw Dose: '' @ [QUOTE] @ quantity @ [QUOTE]
             @ ustr '' | Instructions: '' @ [QUOTE] @ instructions @ [QUOTE] @ [NL]
             @ ustr ''Extracted Output: Daily Frequency: '' @ frequency
             @ ustr '', Dose: '' @ dose @ ustr ''mg, Duration: '' @ duration
             @ ustr '' days'' @ [NL]))))))))"

fun format_examples ::
  "('v, 'vec) backend \<Rightarrow> 'v document list \<Rightarrow> pystr list \<Rightarrow> py_exn + pystr list" where
  "format_examples be [] examples = Inr examples"
| "format_examples be (doc # docs) examples =
     (case format_example be doc of
        Inl e \<Rightarrow> Inl e
      | Inr example \<Rightarrow> format_examples be docs (examples @ [example]))"

definition no_reference_data :: pystr where
  "no_reference_data = ustr ''No reference data available''"

definition get_reference_examples ::
  "processing_config \<Rightarrow> ('v, 'vec) backend \<Rightarrow> pystr \<Rightarrow> py_exn + pystr" where
  "get_reference_examples cfg be chunk_text =
     try_except_Exception
       (bind_exn (similarity_search be chunk_text (similarity_search_k cfg)) (\<lambda>docs.
        bind_exn (format_examples be docs []) (\<lambda>examples.
          Inr (join [NL] examples))))
       (\<lambda>e. Inr no_reference_data)"

section \<open>One batch: \<^verbatim>\<open>DataProcessor._process_chunk\<close>\<close>

definition get_extraction_prompt :: pystr where
  "get_extraction_prompt = ustr
     (''For every row in the data extract the daily frequency, dose amount in mg, and duration values in numeric values. ''
      @ ''Use the reference examples to understand the correct patterns for extraction. ''
      @ ''If there are any values you are unsure of, put a 0. /no think'')"

definition get_format_instructions :: pystr where
  "get_format_instructions = ustr
     ''Comma separated list with daily frequency, dose amount in mg, and duration values. No units. New line after every row.''"

definition chunk_text_of :: "('v, 'vec) backend \<Rightarrow> row list \<Rightarrow> pystr" where
  "chunk_text_of be chunk =
     join [NL]
       (map (\<lambda>row. join (ustr '' | '')
                     (map (\<lambda>cell. replace_char NL SPACE (py_str be cell)) (map snd row)))
            chunk)"

definition process_chunk ::
  "processing_config \<Rightarrow> ('v, 'vec) backend \<Rightarrow> row list \<Rightarrow> py_exn + chain_result" where
  "process_chunk cfg be chunk =
     (let chunk_text = chunk_text_of be chunk in
      bind_exn (get_reference_examples cfg be chunk_text) (\<lambda>reference_examples.
        invoke be \<lparr>data = chunk_text, reference = reference_examples,
                   prompt = get_extraction_prompt, format = get_format_instructions\<rparr>))"

section \<open>Orchestrator: \<^verbatim>\<open>DataProcessor.process_data\<close>\<close>

text \<open>
  The progress callback is optional. It is called with a status message and, inside the
  loop, with the fraction \<^verbatim>\<open>i / len(chunks)\<close>; it is called outside every
  \<^verbatim>\<open>try\<close>, so what it raises propagates.
\<close>

datatype progress_msg =
    Initializing
  | Loading
  | ProcessingChunk nat nat
  | Finalizing

type_synonym progress_callback = "progress_msg \<Rightarrow> rat option \<Rightarrow> py_exn option"

definition notify ::
  "progress_callback option \<Rightarrow> progress_msg \<Rightarrow> rat option \<Rightarrow> py_exn + 'a \<Rightarrow> py_exn + 'a" where
  "notify cb msg progress rest =
     (case cb of
        None \<Rightarrow> rest
      | Some f \<Rightarrow> (case f msg progress of Some e \<Rightarrow> Inl e | None \<Rightarrow> rest))"

text \<open>
  The loop \<^verbatim>\<open>for i, chunk in enumerate(chunks)\<close>, with the accumulator
  \<^verbatim>\<open>results\<close>: a batch that raises an \<open>Exception\<close> is skipped.
\<close>

fun process_chunks ::
  "processing_config \<Rightarrow> ('v, 'vec) backend \<Rightarrow> progress_callback option \<Rightarrow> nat \<Rightarrow>
   row list list \<Rightarrow> nat \<Rightarrow> chain_result list \<Rightarrow> py_exn + chain_result list" where
  "process_chunks cfg be cb n_chunks [] i results = Inr results"
| "process_chunks cfg be cb n_chunks (chunk # chunks) i results =
     notify cb (ProcessingChunk (i + 1) n_chunks) (Some (of_nat i / of_nat n_chunks))
       (case process_chunk cfg be chunk of
          Inr result \<Rightarrow> process_chunks cfg be cb n_chunks chunks (i + 1) (results @ [result])
        | Inl e \<Rightarrow>
            if is_Exception e then process_chunks cfg be cb n_chunks chunks (i + 1) results
            else Inl e)"

definition process_data ::
  "processing_config \<Rightarrow> ('v, 'vec) backend \<Rightarrow> string \<Rightarrow> progress_callback option \<Rightarrow>
   py_exn + dataframe" where
  "process_data cfg be file_path cb =
     notify cb Initializing None
       (case initialize_rag_system cfg be of
          Some e \<Rightarrow> Inl e
        | None \<Rightarrow>
            notify cb Loading None
              (bind_exn (read_excel be file_path) (\<lambda>raw_data_df.
               bind_exn (split_data_into_chunks (chunk_size cfg) raw_data_df) (\<lambda>chunks.
               bind_exn (process_chunks cfg be cb (length chunks) chunks 0 []) (\<lambda>results.
                 notify cb Finalizing None (Inr (parse_results results)))))))"

section \<open>Similarity index builder: \<^verbatim>\<open>build_vector_db\<close>\<close>

text \<open>
  A metadata value of a reference record is the row index, a text or a float.
\<close>

datatype mval = MInt int | MStr pystr | MFloat pyfloat

definition row_get :: "row \<Rightarrow> string \<Rightarrow> cell \<Rightarrow> cell" where
  "row_get r key dflt = (case map_of r key of None \<Rightarrow> dflt | Some c \<Rightarrow> c)"

definition isna :: "cell \<Rightarrow> bool" where
  "isna c \<longleftrightarrow> c = NA"

text \<open>
  \<^verbatim>\<open>float(s)\<close> of a text: surrounding whitespace is dropped; after an optional sign
  the words nan, inf and infinity are read in any letter case; anything else must be a
  decimal literal, read as its rounded value or as an infinity when it overflows, or
  \<open>ValueError\<close> is raised.
\<close>

definition lower_ascii :: "nat \<Rightarrow> nat" where
  "lower_ascii c = (if 65 \<le> c \<and> c \<le> 90 then c + 32 else c)"

definition float_of_text :: "('v, 'vec) backend \<Rightarrow> pystr \<Rightarrow> py_exn + pyfloat" where
  "float_of_text be s =
     (let t = map lower_ascii (strip s);
          negative = (case t of [] \<Rightarrow> False | c # _ \<Rightarrow> c = 45);
          body = (case t of [] \<Rightarrow> [] | c # cs \<Rightarrow> if c = 43 \<or> c = 45 then cs else t)
      in if body = ustr ''nan'' then Inr NaN
         else if body = ustr ''inf'' \<or> body = ustr ''infinity''
           then Inr (if negative then NegInf else PosInf)
         else (case float_literal be (strip s) of
                 Some (Rounded x) \<Rightarrow> Inr (Fin x)
               | Some OverflowPos \<Rightarrow> Inr PosInf
               | Some OverflowNeg \<Rightarrow> Inr NegInf
               | None \<Rightarrow> Inl (ValueError ''could not convert string to float'')))"

text \<open>
  \<^verbatim>\<open>float(x)\<close> of a cell. A number is its own value, an object that is neither a
  number nor a text raises \<open>TypeError\<close>; the builder never passes a missing cell.
\<close>

definition py_float :: "('v, 'vec) backend \<Rightarrow> cell \<Rightarrow> py_exn + pyfloat" where
  "py_float be c =
     (case c of
        NA \<Rightarrow> Inr NaN
      | Number x \<Rightarrow> Inr (Fin x)
      | Text s \<Rightarrow> float_of_text be s
      | Other _ \<Rightarrow> Inl (TypeError ''float() argument must be a string or a real number''))"

text \<open>The body of the \<^verbatim>\<open>try\<close> for one row: the text of the record and its metadata.\<close>

definition row_content :: "('v, 'vec) backend \<Rightarrow> row \<Rightarrow> pystr" where
  "row_content be r =
     ustr ''Raw Antibiotic: '' @ py_str be (row_get r ''raw_antibiotic_name'' (Text []))
     @ ustr '' | Raw Dose: '' @ py_str be (row_get r ''raw_dose_quantity'' (Text []))
     @ ustr '' | Patient Instructions: '' @ py_str be (row_get r ''patient_instructions'' (Text []))
     @ ustr '' | Clean Antibiotic: '' @ py_str be (row_get r ''clean_antibiotic_name'' (Text []))
     @ ustr '' | Clean Dose: '' @ py_str be (row_get r ''clean_dose'' (Text []))
     @ ustr '' | Unit: '' @ py_str be (row_get r ''clean_unit_of_measure'' (Text []))
     @ ustr '' | Frequency: '' @ py_str be (row_get r ''clean_frequency'' (Text []))
     @ ustr '' | Duration: '' @ py_str be (row_get r ''clean_duration'' (Text []))"

definition nan_to_zero :: "cell \<Rightarrow> cell" where
  "nan_to_zero c = (if isna c then Number 0 else c)"

definition build_document ::
  "('v, 'vec) backend \<Rightarrow> nat \<Rightarrow> row \<Rightarrow> py_exn + mval document" where
  "build_document be idx r =
     (let content = row_content be r;
          clean_dose = nan_to_zero (row_get r ''clean_dose'' (Number 0));
          clean_frequency = nan_to_zero (row_get r ''clean_frequency'' (Number 0));
          clean_duration = nan_to_zero (row_get r ''clean_duration'' (Number 0))
      in
      bind_exn (py_float be clean_dose) (\<lambda>dose.
      bind_exn (py_float be clean_frequency) (\<lambda>frequency.
      bind_exn (py_float be clean_duration) (\<lambda>duration.
        Inr \<lparr>page_content = content,
             metadata =
               [(''row_id'', MInt (int idx)),
                (''raw_antibiotic_name'', MStr (py_str be (row_get r ''raw_antibiotic_name'' (Text [])))),
                (''raw_dose_quantity'', MStr (py_str be (row_get r ''raw_dose_quantity'' (Text [])))),
                (''patient_instructions'', MStr (py_str be (row_get r ''patient_instructions'' (Text [])))),
                (''clean_antibiotic_name'', MStr (py_str be (row_get r ''clean_antibiotic_name'' (Text [])))),
                (''clean_dose'', MFloat dose),
                (''clean_unit_of_measure'', MStr (py_str be (row_get r ''clean_unit_of_measure'' (Text [])))),
                (''clean_frequency'', MFloat frequency),
                (''clean_duration'', MFloat duration)]\<rparr>))))"

text \<open>
  The loop \<^verbatim>\<open>for idx, row in ref_df.iterrows()\<close> with its accumulators
  \<^verbatim>\<open>documents\<close> and \<^verbatim>\<open>valid_rows\<close>; a freshly read sheet is indexed 0, 1, 2, ...
\<close>

fun build_documents ::
  "('v, 'vec) backend \<Rightarrow> (nat \<times> row) list \<Rightarrow> mval document list \<Rightarrow> nat \<Rightarrow>
   py_exn + (mval document list \<times> nat)" where
  "build_documents be [] documents valid_rows = Inr (documents, valid_rows)"
| "build_documents be ((idx, r) # rest) documents valid_rows =
     (case build_document be idx r of
        Inr doc \<Rightarrow> build_documents be rest (documents @ [doc]) (valid_rows + 1)
      | Inl e \<Rightarrow>
          if is_Exception e then build_documents be rest documents valid_rows
          else Inl e)"

text \<open>
  The persisted indexes, by directory: an index is the list of its embedded records.
  \<^verbatim>\<open>Chroma.from_documents\<close> opens the store at the directory, creating an empty one
  if there is none, embeds the texts and adds the records to what the store holds.
\<close>

type_synonym 'vec index = "('vec \<times> mval document) list"
type_synonym 'vec store = "string \<rightharpoonup> 'vec index"

fun embed_all :: "('v, 'vec) backend \<Rightarrow> pystr list \<Rightarrow> py_exn + 'vec list" where
  "embed_all be [] = Inr []"
| "embed_all be (t # ts) =
     bind_exn (embed_text be t) (\<lambda>v.
     bind_exn (embed_all be ts) (\<lambda>vs. Inr (v # vs)))"

definition from_documents ::
  "('v, 'vec) backend \<Rightarrow> mval document list \<Rightarrow> string \<Rightarrow> 'vec store \<Rightarrow>
   (py_exn + 'vec index) \<times> 'vec store" where
  "from_documents be documents persist_directory fs =
     (let existing = (case fs persist_directory of None \<Rightarrow> [] | Some idx \<Rightarrow> idx)
      in case embed_all be (map page_content documents) of
           Inl e \<Rightarrow> (Inl e, fs(persist_directory \<mapsto> existing))
         | Inr vectors \<Rightarrow>
             (let idx = existing @ zip vectors documents
              in (Inr idx, fs(persist_directory \<mapsto> idx))))"

definition no_valid_documents :: py_exn where
  "no_valid_documents =
     ValueError ''No valid documents created. Check your Excel file structure.''"

definition build_vector_db ::
  "('v, 'vec) backend \<Rightarrow> string \<Rightarrow> string \<Rightarrow> 'vec store \<Rightarrow>
   (py_exn + 'vec index) \<times> 'vec store" where
  "build_vector_db be reference_excel_path persist_directory fs =
     (case read_excel be reference_excel_path of
        Inl e \<Rightarrow> (Inl e, fs)
      | Inr ref_df \<Rightarrow>
          (case build_documents be (enumerate 0 ref_df) [] 0 of
             Inl e \<Rightarrow> (Inl e, fs)
           | Inr (documents, valid_rows) \<Rightarrow>
               if documents = [] then (Inl no_valid_documents, fs)
               else
                 let fs1 = (if fs persist_directory \<noteq> None
                            then fs(persist_directory := None) else fs)
                 in from_documents be documents persist_directory fs1))"

section \<open>Example collaborators\<close>

text \<open>
  Concrete collaborators for the examples: a backend whose index and model open, whose
  sheet is given and whose model is given; a model that fails on the batch whose text is
  \<open>b\<close>; a model that answers two lines whatever it is asked; a callback that never
  raises.
\<close>

definition demo_config :: processing_config where
  "demo_config = \<lparr>model_num = 0, chunk_size = 1, vector_db_path = ''./chroma_db'',
                   similarity_search_k = 3\<rparr>"

definition demo_backend ::
  "row list \<Rightarrow> (chain_input \<Rightarrow> py_exn + chain_result) \<Rightarrow> (unit, unit) backend" where
  "demo_backend sheet model =
     \<lparr>open_vectorstore = (\<lambda>_. None), open_model = (\<lambda>_. None),
      read_excel = (\<lambda>_. Inr sheet), str_cell = (\<lambda>_. []), float_literal = (\<lambda>_. None),
      similarity_search = (\<lambda>_ _. Inr []), format_value = (\<lambda>_. Inr []),
      invoke = model, embed_text = (\<lambda>_. Inr ())\<rparr>"

definition demo_row :: "string \<Rightarrow> row" where
  "demo_row s = [(''patient_instructions'', Text (ustr s))]"

definition failing_on_b :: "chain_input \<Rightarrow> py_exn + chain_result" where
  "failing_on_b inp =
     (if data inp = ustr ''b'' then Inl (OtherException ''model unavailable'')
      else Inr \<lparr>content = ustr ''2,500,7''\<rparr>)"

definition two_lines :: "chain_input \<Rightarrow> py_exn + chain_result" where
  "two_lines inp = Inr \<lparr>content = ustr ''1,2,3'' @ [NL] @ ustr ''4,5,6''\<rparr>"

definition quiet_callback :: progress_callback where
  "quiet_callback msg progress = None"

text \<open>
  An index that cannot be reached; reference rows: one with a missing frequency, one
  whose dose is the text \<open>abc\<close>, one whose dose is the text \<open>NAN\<close>; an index persisted
  by an earlier build.
\<close>

definition unreachable_index :: "pystr \<Rightarrow> int \<Rightarrow> py_exn + unit document list" where
  "unreachable_index query k = Inl (OtherException ''index unreachable'')"

definition good_row :: row where
  "good_row = [(''raw_antibiotic_name'', Text (ustr ''amoxicillin'')),
               (''clean_dose'', Number 500), (''clean_frequency'', NA),
               (''clean_duration'', Number 7)]"

definition bad_row :: row where
  "bad_row = [(''raw_antibiotic_name'', Text (ustr ''amoxicillin'')),
              (''clean_dose'', Text (ustr ''abc''))]"

definition nan_row :: row where
  "nan_row = [(''raw_antibiotic_name'', Text (ustr ''amoxicillin'')),
              (''clean_dose'', Text (ustr ''NAN''))]"

definition old_index :: "unit index" where
  "old_index = [((), \<lparr>page_content = ustr ''old record'', metadata = []\<rparr>)]"

section \<open>Properties of the batcher\<close>

subsection \<open>Slices at cumulative division points\<close>










subsection \<open>The number of sections\<close>



subsection \<open>Batch count and batch sizes\<close>




subsection \<open>The batches partition the dataset\<close>



section \<open>Properties of the result parser\<close>

lemmas text_eval = ustr_def strip_def is_space_def NL_def COMMA_def SPACE_def QUOTE_def
  replace_char_def
lemmas run_eval = process_data_def process_chunk_def chunk_text_of_def
  get_reference_examples_def try_except_Exception_def bind_exn_def notify_def
  initialize_rag_system_def choose_model_def models_def py_str_def parse_results_def
lemmas split_eval = split_data_into_chunks_def chunk_amount_def array_split_def
  section_sizes_def cumsum_def slice_def
lemmas demo_eval = demo_config_def demo_backend_def demo_row_def two_lines_def

lemma split_on_not_Nil: "split_on sep s \<noteq> []"
  by (induction s) (simp_all split: list.splits)

lemma length_split_on: "length (split_on sep s) = Suc (count_list s sep)"
proof (induction s)
  case Nil
  then show ?case by simp
next
  case (Cons c cs)
  then show ?case
    by (cases "split_on sep cs") (simp_all add: split_on_not_Nil)
qed

lemma parse_lines_filter:
  "parse_lines lines parsed_rows
   = parsed_rows @ filter (\<lambda>values. length values = 3)
                     (map (\<lambda>line. map strip (split_on COMMA line)) lines)"
proof (induction lines arbitrary: parsed_rows)
  case Nil
  then show ?case by simp
next
  case (Cons l ls)
  show ?case by (simp add: Let_def Cons.IH del: length_map)
qed

lemma parse_loop_concat:
  "parse_loop results parsed_rows
   = parsed_rows @ concat (map (\<lambda>result. parse_lines (split_on NL (strip (content result))) [])
                             results)"
proof (induction results arbitrary: parsed_rows)
  case Nil
  then show ?case by simp
next
  case (Cons r rs)
  have "parse_loop (r # rs) parsed_rows
        = parse_loop rs (parse_lines (split_on NL (strip (content r))) parsed_rows)"
    by (simp add: Let_def)
  also have "\<dots> = parse_lines (split_on NL (strip (content r))) parsed_rows
        @ concat (map (\<lambda>result. parse_lines (split_on NL (strip (content result))) []) rs)"
    by (rule Cons.IH)
  also have "parse_lines (split_on NL (strip (content r))) parsed_rows
        = parsed_rows @ parse_lines (split_on NL (strip (content r))) []"
    by (simp only: parse_lines_filter [of _ parsed_rows] parse_lines_filter [of _ "[]"] append_Nil)
  finally show ?case by simp
qed

lemma rows_parse_results:
  "rows (parse_results results)
     = concat (map (\<lambda>result.
         filter (\<lambda>values. length values = 3)
           (map (\<lambda>line. map strip (split_on COMMA line))
                (split_on NL (strip (content result))))) results)"
  by (simp add: parse_results_def parse_loop_concat parse_lines_filter del: length_map)

lemma rows_parse_results_length_3:
  "r \<in> set (rows (parse_results results)) \<Longrightarrow> length r = 3"
  by (auto simp: rows_parse_results simp del: length_map)

lemma rows_parse_results_concat:
  "rows (parse_results results) = concat (map (\<lambda>result. rows (parse_results [result])) results)"
  by (simp add: rows_parse_results del: length_map)

lemma length_rows_parse_results_single:
  "length (rows (parse_results [result])) \<le> length (split_on NL (strip (content result)))"
proof -
  have "rows (parse_results [result])
        = filter (\<lambda>values. length values = 3)
            (map (\<lambda>line. map strip (split_on COMMA line))
                 (split_on NL (strip (content result))))"
    by (simp only: rows_parse_results list.map concat.simps append_Nil2)
  moreover have "length (filter (\<lambda>values. length values = 3)
                   (map (\<lambda>line. map strip (split_on COMMA line))
                        (split_on NL (strip (content result)))))
        \<le> length (split_on NL (strip (content result)))"
    by (rule order_trans [OF length_filter_le]) simp
  ultimately show ?thesis by (simp only:)
qed

lemma length_rows_parse_results:
  "length (rows (parse_results results))
   \<le> sum_list (map (\<lambda>result. length (split_on NL (strip (content result)))) results)"
proof (induction results)
  case Nil
  then show ?case by (simp add: rows_parse_results)
next
  case (Cons r rs)
  have "rows (parse_results (r # rs)) = rows (parse_results [r]) @ rows (parse_results rs)"
    by (simp only: rows_parse_results_concat [of "r # rs"] rows_parse_results_concat [of rs]
          list.map concat.simps)
  then have "length (rows (parse_results (r # rs)))
             = length (rows (parse_results [r])) + length (rows (parse_results rs))"
    by simp
  with Cons.IH length_rows_parse_results_single [of r] show ?case by simp
qed

text \<open>
  C2: for every list of responses, the rows of the parsed table are, response by response
  and line by line of the stripped response, the comma-separated fields of the line,
  each trimmed, of exactly the lines that have three fields; every other line is dropped.
  A line has three fields exactly when it holds two commas, whatever the fields are: they
  are kept as text. The parser is a total function, it has no failing branch; the empty
  response gives a table of no rows.
\<close>

theorem parse_results_keeps_three_fields:
  "rows (parse_results results)
     = concat (map (\<lambda>result.
         filter (\<lambda>values. length values = 3)
           (map (\<lambda>line. map strip (split_on COMMA line))
                (split_on NL (strip (content result))))) results)
   \<and> columns (parse_results results) = [''Daily Frequency'', ''Dose'', ''Duration'']
   \<and> (length (map strip (split_on COMMA line)) = 3 \<longleftrightarrow> count_list line COMMA = 2)
   \<and> rows (parse_results [\<lparr>content = []\<rparr>]) = []"
proof (intro conjI)
  show "rows (parse_results results)
     = concat (map (\<lambda>result.
         filter (\<lambda>values. length values = 3)
           (map (\<lambda>line. map strip (split_on COMMA line))
                (split_on NL (strip (content result))))) results)"
    by (rule rows_parse_results)
  show "columns (parse_results results) = [''Daily Frequency'', ''Dose'', ''Duration'']"
    by (simp add: parse_results_def)
  show "length (map strip (split_on COMMA line)) = 3 \<longleftrightarrow> count_list line COMMA = 2"
    by (simp add: length_split_on)
  show "rows (parse_results [\<lparr>content = []\<rparr>]) = []"
    by (simp add: parse_results_def strip_def)
qed

theorem parse_results_keeps_three_fields_witness:
  "rows (parse_results [\<lparr>content = ustr ''2, 500 ,7'' @ [NL] @ ustr ''bad_line'' @ [NL]
                                     @ ustr ''a,b,c'' @ [NL] @ ustr ''a,b,c,d''\<rparr>])
   = [map ustr [''2'', ''500'', ''7''], map ustr [''a'', ''b'', ''c'']]"
proof -
  let ?response = "\<lparr>content = ustr ''2, 500 ,7'' @ [NL] @ ustr ''bad_line'' @ [NL]
                               @ ustr ''a,b,c'' @ [NL] @ ustr ''a,b,c,d''\<rparr>"
  from parse_results_keeps_three_fields [of "[?response]" "[]"]
  have "rows (parse_results [?response])
        = concat (map (\<lambda>result.
            filter (\<lambda>values. length values = 3)
              (map (\<lambda>line. map strip (split_on COMMA line))
                   (split_on NL (strip (content result))))) [?response])"
    by (rule conjunct1)
  also have "\<dots> = [map ustr [''2'', ''500'', ''7''], map ustr [''a'', ''b'', ''c'']]"
    by (simp add: text_eval)
  finally show ?thesis .
qed

section \<open>Properties of the orchestrator\<close>

lemma chunk_amount_one: "chunk_amount 1 [a] = Inr 1"
  by (simp add: chunk_amount_def)

lemma array_split_one: "array_split [a] 1 = Inr [[a]]"
  by (simp add: array_split_def section_sizes_def cumsum_def slice_def)

lemma split_one_row: "split_data_into_chunks 1 [a] = Inr [[a]]"
  by (simp add: split_data_into_chunks_def chunk_amount_one array_split_one)

lemma chunk_amount_three: "chunk_amount 1 [a, b, c] = Inr 3"
  by (simp add: chunk_amount_def)

lemma array_split_three: "array_split [a, b, c :: row] 3 = Inr [[a], [b], [c]]"
  by code_simp

lemma split_three_rows: "split_data_into_chunks 1 [a, b, c :: row] = Inr [[a], [b], [c]]"
  by (simp add: split_data_into_chunks_def chunk_amount_three array_split_three)

lemma notify_silent:
  "(\<forall>f m p. cb = Some f \<longrightarrow> f m p = None) \<Longrightarrow> notify cb msg progress rest = rest"
  by (cases cb) (simp_all add: notify_def)

lemma process_chunks_successes:
  assumes "\<forall>f m p. cb = Some f \<longrightarrow> f m p = None"
    and "\<forall>c \<in> set chunks. \<forall>e. process_chunk cfg be c = Inl e \<longrightarrow> is_Exception e"
  shows "process_chunks cfg be cb n chunks i results
         = Inr (results @ concat (map (\<lambda>c. case process_chunk cfg be c of
                                              Inr result \<Rightarrow> [result] | Inl e \<Rightarrow> []) chunks))"
  using assms(2)
proof (induction chunks arbitrary: i results)
  case Nil
  then show ?case by simp
next
  case (Cons c cs)
  from Cons.prems have rest: "\<forall>c \<in> set cs. \<forall>e. process_chunk cfg be c = Inl e \<longrightarrow> is_Exception e"
    by simp
  show ?case
  proof (cases "process_chunk cfg be c")
    case (Inl e)
    with Cons.prems have "is_Exception e" by simp
    with Inl show ?thesis
      by (simp add: notify_silent [OF assms(1)] Cons.IH [OF rest])
  next
    case (Inr r)
    then show ?thesis
      by (simp add: notify_silent [OF assms(1)] Cons.IH [OF rest])
  qed
qed

lemma process_chunks_Inr_D:
  "process_chunks cfg be cb n chunks i results = Inr out \<Longrightarrow>
   out = results @ concat (map (\<lambda>c. case process_chunk cfg be c of
                                       Inr result \<Rightarrow> [result] | Inl e \<Rightarrow> []) chunks)"
proof (induction chunks arbitrary: i results)
  case Nil
  then show ?case by simp
next
  case (Cons c cs)
  from Cons.prems obtain acc where
    step: "process_chunks cfg be cb n cs (Suc i) acc = Inr out"
    and acc: "acc = results @ (case process_chunk cfg be c of
                                 Inr result \<Rightarrow> [result] | Inl e \<Rightarrow> [])"
    by (auto simp: notify_def split: option.splits sum.splits if_splits)
  from Cons.IH [OF step] acc show ?case by simp
qed

lemma process_data_Inr_D:
  assumes "process_data cfg be file_path cb = Inr df"
  shows "\<exists>raw chunks. read_excel be file_path = Inr raw
           \<and> split_data_into_chunks (chunk_size cfg) raw = Inr chunks
           \<and> df = parse_results (concat (map (\<lambda>c. case process_chunk cfg be c of
                                       Inr result \<Rightarrow> [result] | Inl e \<Rightarrow> []) chunks))"
proof -
  from assms obtain raw chunks results where
    "read_excel be file_path = Inr raw"
    "split_data_into_chunks (chunk_size cfg) raw = Inr chunks"
    "process_chunks cfg be cb (length chunks) chunks 0 [] = Inr results"
    "df = parse_results results"
    by (auto simp: process_data_def notify_def bind_exn_def split: option.splits sum.splits)
  then show ?thesis using process_chunks_Inr_D by fastforce
qed

subsection \<open>A failing batch is skipped\<close>

text \<open>
  C3: in every run whose initialisation, load and split succeed, with a callback that
  does not raise, and in which every batch that raises raises an \<open>Exception\<close>, no
  exception reaches the caller: the run returns the table parsed from the responses of
  the batches that did not raise, in batch order, and the rows of that table are the
  concatenation of the rows of each such batch; a batch that raised adds nothing.
\<close>

theorem process_data_skips_failed_batches:
  assumes init: "initialize_rag_system cfg be = None"
    and load: "read_excel be file_path = Inr raw"
    and split: "split_data_into_chunks (chunk_size cfg) raw = Inr chunks"
    and quiet: "\<forall>f m p. cb = Some f \<longrightarrow> f m p = None"
    and exns: "\<forall>c \<in> set chunks. \<forall>e. process_chunk cfg be c = Inl e \<longrightarrow> is_Exception e"
  shows "\<exists>df. process_data cfg be file_path cb = Inr df
           \<and> df = parse_results (concat (map (\<lambda>c. case process_chunk cfg be c of
                                         Inr result \<Rightarrow> [result] | Inl e \<Rightarrow> []) chunks))
           \<and> rows df = concat (map (\<lambda>c. case process_chunk cfg be c of
                                         Inr result \<Rightarrow> rows (parse_results [result])
                                       | Inl e \<Rightarrow> []) chunks)"
proof -
  let ?ok = "concat (map (\<lambda>c. case process_chunk cfg be c of
                               Inr result \<Rightarrow> [result] | Inl e \<Rightarrow> []) chunks)"
  have loop: "process_chunks cfg be cb (length chunks) chunks 0 [] = Inr ?ok"
    using process_chunks_successes [OF quiet exns, of "length chunks" 0 "[]"] by simp
  have run: "process_data cfg be file_path cb = Inr (parse_results ?ok)"
    by (simp add: process_data_def notify_silent [OF quiet] init load split loop bind_exn_def)
  have "rows (parse_results ?ok)
        = concat (map (\<lambda>result. rows (parse_results [result])) ?ok)"
    by (rule rows_parse_results_concat)
  also have "\<dots> = concat (map (\<lambda>c. case process_chunk cfg be c of
                                         Inr result \<Rightarrow> rows (parse_results [result])
                                       | Inl e \<Rightarrow> []) chunks)"
    by (induction chunks) (simp_all split: sum.splits)
  finally show ?thesis using run by blast
qed

theorem process_data_skips_failed_batches_witness:
  "initialize_rag_system demo_config
       (demo_backend [demo_row ''a'', demo_row ''b'', demo_row ''c''] failing_on_b) = None
   \<and> process_chunk demo_config
       (demo_backend [demo_row ''a'', demo_row ''b'', demo_row ''c''] failing_on_b) [demo_row ''b'']
       = Inl (OtherException ''model unavailable'')
   \<and> process_data demo_config
       (demo_backend [demo_row ''a'', demo_row ''b'', demo_row ''c''] failing_on_b)
       ''input.xlsx'' (Some quiet_callback)
       = Inr \<lparr>columns = [''Daily Frequency'', ''Dose'', ''Duration''],
              rows = [map ustr [''2'', ''500'', ''7''], map ustr [''2'', ''500'', ''7'']]\<rparr>"
proof -
  let ?be = "demo_backend [demo_row ''a'', demo_row ''b'', demo_row ''c''] failing_on_b"
  let ?chunks = "[[demo_row ''a''], [demo_row ''b''], [demo_row ''c'']]"
  have init: "initialize_rag_system demo_config ?be = None"
    by (simp add: run_eval demo_eval)
  have load: "read_excel ?be ''input.xlsx'' = Inr [demo_row ''a'', demo_row ''b'', demo_row ''c'']"
    by (simp add: demo_eval)
  have split: "split_data_into_chunks (chunk_size demo_config)
                 [demo_row ''a'', demo_row ''b'', demo_row ''c''] = Inr ?chunks"
    by (simp add: demo_config_def split_three_rows)
  have quiet: "\<forall>f m p. Some quiet_callback = Some f \<longrightarrow> f m p = None"
    by (simp add: quiet_callback_def)
  have a: "process_chunk demo_config ?be [demo_row ''a''] = Inr \<lparr>content = ustr ''2,500,7''\<rparr>"
    by (simp add: run_eval demo_eval failing_on_b_def text_eval)
  have b: "process_chunk demo_config ?be [demo_row ''b''] = Inl (OtherException ''model unavailable'')"
    by (simp add: run_eval demo_eval failing_on_b_def text_eval)
  have c: "process_chunk demo_config ?be [demo_row ''c''] = Inr \<lparr>content = ustr ''2,500,7''\<rparr>"
    by (simp add: run_eval demo_eval failing_on_b_def text_eval)
  have exns: "\<forall>ch \<in> set ?chunks. \<forall>e. process_chunk demo_config ?be ch = Inl e \<longrightarrow> is_Exception e"
    by (simp add: a b c)
  have one: "rows (parse_results [\<lparr>content = ustr ''2,500,7''\<rparr>]) = [map ustr [''2'', ''500'', ''7'']]"
    by (simp add: parse_results_def text_eval)
  from process_data_skips_failed_batches [OF init load split quiet exns]
  have "process_data demo_config ?be ''input.xlsx'' (Some quiet_callback)
       = Inr \<lparr>columns = [''Daily Frequency'', ''Dose'', ''Duration''],
              rows = [map ustr [''2'', ''500'', ''7''], map ustr [''2'', ''500'', ''7'']]\<rparr>"
    by (simp add: a b c one) (simp add: parse_results_def text_eval)
  with init b show ?thesis by simp
qed

subsection \<open>An empty dataset\<close>

text \<open>
  C10: for a dataset of no rows and every \<open>chunk_size\<close> \<open>C > 0\<close> the split raises
  \<open>ValueError\<close> instead of returning no batches, so a run on an empty input file
  returns an exception, never a table; when the initialisation succeeds and the callback
  is quiet, that exception is the \<open>ValueError\<close> of the split.
\<close>

theorem process_data_empty_input:
  assumes size: "0 < chunk_size cfg" and load: "read_excel be file_path = Inr []"
  shows "split_data_into_chunks (chunk_size cfg) ([] :: row list)
           = Inl (ValueError ''number sections must be larger than 0.'')
         \<and> (\<exists>e. process_data cfg be file_path cb = Inl e)
         \<and> (initialize_rag_system cfg be = None \<longrightarrow> (\<forall>f m p. cb = Some f \<longrightarrow> f m p = None) \<longrightarrow>
              process_data cfg be file_path cb
                = Inl (ValueError ''number sections must be larger than 0.''))"
proof -
  have split: "split_data_into_chunks (chunk_size cfg) ([] :: row list)
           = Inl (ValueError ''number sections must be larger than 0.'')"
    using size by (simp add: split_data_into_chunks_def chunk_amount_def array_split_def)
  have fails: "\<exists>e. process_data cfg be file_path cb = Inl e"
    by (simp add: process_data_def notify_def load split bind_exn_def split: option.splits)
  have exact: "process_data cfg be file_path cb
                = Inl (ValueError ''number sections must be larger than 0.'')"
    if "initialize_rag_system cfg be = None" "\<forall>f m p. cb = Some f \<longrightarrow> f m p = None"
    using that by (simp add: process_data_def notify_silent load split bind_exn_def)
  from split fails exact show ?thesis by blast
qed

theorem process_data_empty_input_witness:
  "0 < chunk_size demo_config
   \<and> read_excel (demo_backend [] two_lines) ''input.xlsx'' = Inr []
   \<and> process_data demo_config (demo_backend [] two_lines) ''input.xlsx'' None
       = Inl (ValueError ''number sections must be larger than 0.'')"
proof -
  have size: "0 < chunk_size demo_config" by (simp add: demo_config_def)
  have load: "read_excel (demo_backend [] two_lines) ''input.xlsx'' = Inr []"
    by (simp add: demo_backend_def)
  have init: "initialize_rag_system demo_config (demo_backend [] two_lines) = None"
    by (simp add: run_eval demo_eval)
  from process_data_empty_input [OF size load, of None] init size load
  show ?thesis by simp
qed

subsection \<open>The output table\<close>

text \<open>
  C9, as the specification words it, fails: the row count is not bounded by the number
  of input rows. A model that answers two well-formed lines for a batch of one row gives
  a table of two rows.
\<close>

theorem process_data_more_rows_than_input:
  "process_data demo_config (demo_backend [demo_row ''take two''] two_lines) ''input.xlsx'' None
   = Inr \<lparr>columns = [''Daily Frequency'', ''Dose'', ''Duration''],
          rows = [map ustr [''1'', ''2'', ''3''], map ustr [''4'', ''5'', ''6'']]\<rparr>"
  by (simp add: run_eval split_eval demo_eval text_eval upt_conv_Cons)

text \<open>
  C9, amended: the table of every run that completes has exactly the three columns
  Daily Frequency, Dose, Duration in that order, every row has exactly three fields, and
  the row count is at most the number of lines of the responses of the batches that did
  not raise.
\<close>

theorem process_data_output_schema:
  assumes "process_data cfg be file_path cb = Inr df"
  shows "columns df = [''Daily Frequency'', ''Dose'', ''Duration'']
         \<and> (\<forall>r \<in> set (rows df). length r = 3)
         \<and> (\<exists>raw chunks. read_excel be file_path = Inr raw
               \<and> split_data_into_chunks (chunk_size cfg) raw = Inr chunks
               \<and> length (rows df)
                   \<le> sum_list (map (\<lambda>c. case process_chunk cfg be c of
                                          Inr result \<Rightarrow> length (split_on NL (strip (content result)))
                                        | Inl e \<Rightarrow> 0) chunks))"
proof -
  let ?ok = "\<lambda>chunks. concat (map (\<lambda>c. case process_chunk cfg be c of
                               Inr result \<Rightarrow> [result] | Inl e \<Rightarrow> []) chunks)"
  from process_data_Inr_D [OF assms] obtain raw chunks where
    load: "read_excel be file_path = Inr raw"
    and split: "split_data_into_chunks (chunk_size cfg) raw = Inr chunks"
    and df: "df = parse_results (?ok chunks)"
    by blast
  have cols: "columns df = [''Daily Frequency'', ''Dose'', ''Duration'']"
    by (simp add: df parse_results_def)
  have width: "\<forall>r \<in> set (rows df). length r = 3"
    unfolding df using rows_parse_results_length_3 by blast
  have "sum_list (map (\<lambda>result. length (split_on NL (strip (content result)))) (?ok chunks))
        = sum_list (map (\<lambda>c. case process_chunk cfg be c of
                                Inr result \<Rightarrow> length (split_on NL (strip (content result)))
                              | Inl e \<Rightarrow> 0) chunks)"
    by (induction chunks) (simp_all split: sum.splits)
  with length_rows_parse_results [of "?ok chunks"]
  have bound: "length (rows df)
                   \<le> sum_list (map (\<lambda>c. case process_chunk cfg be c of
                                          Inr result \<Rightarrow> length (split_on NL (strip (content result)))
                                        | Inl e \<Rightarrow> 0) chunks)"
    by (simp add: df)
  from cols width load split bound show ?thesis by blast
qed

theorem process_data_output_schema_witness:
  "process_data demo_config (demo_backend [demo_row ''take two''] two_lines) ''input.xlsx'' None
     = Inr \<lparr>columns = [''Daily Frequency'', ''Dose'', ''Duration''],
            rows = [map ustr [''1'', ''2'', ''3''], map ustr [''4'', ''5'', ''6'']]\<rparr>
   \<and> length [map ustr [''1'', ''2'', ''3''], map ustr [''4'', ''5'', ''6'']]
       \<le> length (split_on NL (strip (ustr ''1,2,3'' @ [NL] @ ustr ''4,5,6'')))"
proof -
  let ?be = "demo_backend [demo_row ''take two''] two_lines"
  let ?df = "\<lparr>columns = [''Daily Frequency'', ''Dose'', ''Duration''],
              rows = [map ustr [''1'', ''2'', ''3''], map ustr [''4'', ''5'', ''6'']]\<rparr>"
  have run: "process_data demo_config ?be ''input.xlsx'' None = Inr ?df"
    by (simp add: run_eval split_one_row demo_eval text_eval)
  have load: "read_excel ?be ''input.xlsx'' = Inr [demo_row ''take two'']"
    by (simp add: demo_backend_def)
  have split: "split_data_into_chunks (chunk_size demo_config) [demo_row ''take two'']
                 = Inr [[demo_row ''take two'']]"
    by (simp add: demo_config_def split_one_row)
  have chunk: "process_chunk demo_config ?be [demo_row ''take two'']
                 = Inr \<lparr>content = ustr ''1,2,3'' @ [NL] @ ustr ''4,5,6''\<rparr>"
    by (simp add: run_eval demo_eval)
  from process_data_output_schema [OF run] load split chunk
  have "length (rows ?df)
        \<le> length (split_on NL (strip (ustr ''1,2,3'' @ [NL] @ ustr ''4,5,6'')))"
    by simp
  with run show ?thesis by simp
qed

section \<open>Properties of the retriever\<close>

lemma try_except_Exception_no_Exception:
  assumes handler: "\<And>e. \<exists>v. handler e = Inr v"
    and raised: "try_except_Exception body handler = Inl e"
  shows "\<not> is_Exception e"
proof (cases body)
  case (Inl a)
  show ?thesis
  proof (cases "is_Exception a")
    case True
    with Inl raised have "handler a = Inl e" by (simp add: try_except_Exception_def)
    with handler [of a] show ?thesis by auto
  next
    case False
    with Inl raised show ?thesis by (simp add: try_except_Exception_def)
  qed
next
  case (Inr v)
  with raised show ?thesis by (simp add: try_except_Exception_def)
qed

lemma get_reference_examples_no_Exception:
  assumes "get_reference_examples cfg be chunk_text = Inl e"
  shows "\<not> is_Exception e"
proof (rule try_except_Exception_no_Exception)
  show "\<exists>v. (\<lambda>e. Inr no_reference_data :: py_exn + pystr) e = Inr v" for e by simp
  show "try_except_Exception
         (bind_exn (similarity_search be chunk_text (similarity_search_k cfg)) (\<lambda>docs.
          bind_exn (format_examples be docs []) (\<lambda>examples. Inr (join [NL] examples))))
         (\<lambda>e. Inr no_reference_data) = Inl e"
    using assms by (simp add: get_reference_examples_def)
qed

lemma get_reference_examples_raised:
  assumes exn: "is_Exception e"
    and raised: "similarity_search be chunk_text (similarity_search_k cfg) = Inl e
       \<or> (\<exists>docs. similarity_search be chunk_text (similarity_search_k cfg) = Inr docs
              \<and> format_examples be docs [] = Inl e)"
  shows "get_reference_examples cfg be chunk_text = Inr no_reference_data"
proof -
  have "bind_exn (similarity_search be chunk_text (similarity_search_k cfg)) (\<lambda>docs.
        bind_exn (format_examples be docs []) (\<lambda>examples.
          Inr (join [NL] examples))) = Inl e"
    using raised by (auto simp: bind_exn_def)
  then show ?thesis
    using exn by (simp add: get_reference_examples_def try_except_Exception_def)
qed

text \<open>
  C5: for every query text, if the similarity search raises an \<open>Exception\<close>, or it
  returns and the formatting of the examples raises one, the retriever returns the text
  \<open>No reference data available\<close>; and whatever happens, the retriever never passes an
  \<open>Exception\<close> on to the batch.
\<close>

theorem get_reference_examples_sentinel:
  "(is_Exception e
      \<and> (similarity_search be chunk_text (similarity_search_k cfg) = Inl e
          \<or> (\<exists>docs. similarity_search be chunk_text (similarity_search_k cfg) = Inr docs
                 \<and> format_examples be docs [] = Inl e))
     \<longrightarrow> get_reference_examples cfg be chunk_text = Inr no_reference_data)
   \<and> (\<forall>e'. get_reference_examples cfg be chunk_text = Inl e' \<longrightarrow> \<not> is_Exception e')"
  using get_reference_examples_raised [of e be chunk_text cfg]
    get_reference_examples_no_Exception [of cfg be chunk_text]
  by blast

theorem get_reference_examples_sentinel_witness:
  "is_Exception (OtherException ''index unreachable'')
   \<and> similarity_search ((demo_backend [] two_lines)\<lparr>similarity_search := unreachable_index\<rparr>)
         (ustr ''amoxicillin 500mg'') (similarity_search_k demo_config)
       = Inl (OtherException ''index unreachable'')
   \<and> get_reference_examples demo_config
         ((demo_backend [] two_lines)\<lparr>similarity_search := unreachable_index\<rparr>)
         (ustr ''amoxicillin 500mg'')
       = Inr no_reference_data"
proof -
  let ?be = "(demo_backend [] two_lines)\<lparr>similarity_search := unreachable_index\<rparr>"
  have exn: "is_Exception (OtherException ''index unreachable'')" by simp
  have raised: "similarity_search ?be (ustr ''amoxicillin 500mg'') (similarity_search_k demo_config)
       = Inl (OtherException ''index unreachable'')"
    by (simp add: unreachable_index_def)
  from get_reference_examples_sentinel
         [of "OtherException ''index unreachable''" ?be "ustr ''amoxicillin 500mg''" demo_config]
       exn raised
  show ?thesis by blast
qed

section \<open>Properties of the index builder\<close>

lemma float_of_text_Exception: "float_of_text be s = Inl e \<Longrightarrow> is_Exception e"
  by (auto simp: float_of_text_def Let_def split: if_splits option.splits literal_value.splits)

lemma py_float_Exception: "py_float be c = Inl e \<Longrightarrow> is_Exception e"
  by (cases c) (auto simp: py_float_def dest: float_of_text_Exception)

lemma build_document_Exception: "build_document be idx r = Inl e \<Longrightarrow> is_Exception e"
  by (auto simp: build_document_def Let_def bind_exn_def split: sum.splits
           dest: py_float_Exception)

lemma build_documents_successes:
  "build_documents be rs documents valid_rows
   = Inr (documents @ concat (map (\<lambda>(idx, r). case build_document be idx r of
                                                  Inr doc \<Rightarrow> [doc] | Inl e \<Rightarrow> []) rs),
          valid_rows + length (concat (map (\<lambda>(idx, r). case build_document be idx r of
                                                  Inr doc \<Rightarrow> [doc] | Inl e \<Rightarrow> []) rs)))"
proof (induction rs arbitrary: documents valid_rows)
  case Nil
  then show ?case by simp
next
  case (Cons p rs)
  obtain idx r where p: "p = (idx, r)" by (cases p)
  show ?case
  proof (cases "build_document be idx r")
    case (Inl e)
    then have "is_Exception e" by (rule build_document_Exception)
    with Inl show ?thesis by (simp add: p Cons.IH)
  next
    case (Inr doc)
    then show ?thesis by (simp add: p Cons.IH)
  qed
qed

lemma embed_all_length: "embed_all be ts = Inr vs \<Longrightarrow> length vs = length ts"
  by (induction ts arbitrary: vs) (auto simp: bind_exn_def split: sum.splits)

lemma build_vector_db_cases:
  assumes load: "read_excel be path = Inr ref_df"
    and docs: "documents = concat (map (\<lambda>(idx, r). case build_document be idx r of
                                    Inr doc \<Rightarrow> [doc] | Inl e \<Rightarrow> []) (enumerate 0 ref_df))"
  shows "documents = [] \<Longrightarrow> build_vector_db be path dir fs = (Inl no_valid_documents, fs)"
    and "documents \<noteq> [] \<Longrightarrow> embed_all be (map page_content documents) = Inl e \<Longrightarrow>
           build_vector_db be path dir fs = (Inl e, fs(dir \<mapsto> []))"
    and "documents \<noteq> [] \<Longrightarrow> embed_all be (map page_content documents) = Inr vectors \<Longrightarrow>
           build_vector_db be path dir fs
             = (Inr (zip vectors documents), fs(dir \<mapsto> zip vectors documents))"
  by (simp_all add: build_vector_db_def load build_documents_successes docs [symmetric]
        from_documents_def Let_def)

lemma py_float_label:
  assumes "py_float be (nan_to_zero (row_get r key (Number 0))) = Inr x"
  shows "(map_of r key = None \<or> map_of r key = Some NA \<longrightarrow> x = Fin 0)
     \<and> (\<forall>q. map_of r key = Some (Number q) \<longrightarrow> x = Fin q)
     \<and> (\<forall>t. map_of r key \<noteq> Some (Other t))
     \<and> ((\<forall>s. map_of r key \<noteq> Some (Text s)) \<longrightarrow> x \<noteq> NaN)"
proof (cases "map_of r key")
  case None
  with assms show ?thesis
    by (auto simp: row_get_def nan_to_zero_def isna_def py_float_def)
next
  case (Some c)
  with assms show ?thesis
    by (cases c) (auto simp: row_get_def nan_to_zero_def isna_def py_float_def)
qed

lemma build_document_Inr_D:
  assumes "build_document be idx r = Inr doc"
  shows "\<exists>dose frequency duration.
           py_float be (nan_to_zero (row_get r ''clean_dose'' (Number 0))) = Inr dose
         \<and> py_float be (nan_to_zero (row_get r ''clean_frequency'' (Number 0))) = Inr frequency
         \<and> py_float be (nan_to_zero (row_get r ''clean_duration'' (Number 0))) = Inr duration
         \<and> map_of (metadata doc) ''clean_dose'' = Some (MFloat dose)
         \<and> map_of (metadata doc) ''clean_frequency'' = Some (MFloat frequency)
         \<and> map_of (metadata doc) ''clean_duration'' = Some (MFloat duration)"
  using assms
  by (auto simp: build_document_def Let_def bind_exn_def split: sum.splits)

lemmas build_eval = build_document_def row_get_def nan_to_zero_def isna_def py_float_def
  float_of_text_def lower_ascii_def bind_exn_def

lemma map_snd_zip_embed:
  "embed_all be (map page_content documents) = Inr vectors \<Longrightarrow>
   map snd (zip vectors documents) = documents"
  by (drule embed_all_length) (simp add: map_snd_zip)

lemma embed_all_demo:
  "embed_all (demo_backend sheet model) ts = Inr (replicate (length ts) ())"
  by (induction ts) (simp_all add: bind_exn_def demo_backend_def)

lemma build_document_good_row:
  "\<exists>doc. build_document (demo_backend sheet model) idx good_row = Inr doc"
  by (simp add: build_eval good_row_def demo_backend_def Let_def)

lemma build_document_bad_row:
  "build_document (demo_backend sheet model) idx bad_row
   = Inl (ValueError ''could not convert string to float'')"
  by (simp add: build_eval bad_row_def demo_backend_def text_eval Let_def)

subsection \<open>Numeric labels\<close>

text \<open>
  C7: the builder breaks the claim at a label cell that holds a text which
  \<^verbatim>\<open>float()\<close> reads as NaN. The test for a missing value is made before
  \<^verbatim>\<open>float()\<close>, so the text \<open>NAN\<close> passes it, \<^verbatim>\<open>float()\<close> returns NaN and the record
  is persisted with NaN, against the builder's own comments (handle NaN values, convert
  NaN to 0 for numeric fields); a missing cell in the same row position is stored as 0 and
  a number as itself. The text \<open>abc\<close> makes \<^verbatim>\<open>float()\<close> raise and the row is skipped.
\<close>

theorem build_document_text_nan:
  "map_sum id (\<lambda>doc. map_of (metadata doc) ''clean_dose'')
       (build_document (demo_backend [] two_lines) 0 nan_row) = Inr (Some (MFloat NaN))
   \<and> map_sum id (\<lambda>doc. map_of (metadata doc) ''clean_frequency'')
       (build_document (demo_backend [] two_lines) 0 good_row) = Inr (Some (MFloat (Fin 0)))
   \<and> map_sum id (\<lambda>doc. map_of (metadata doc) ''clean_dose'')
       (build_document (demo_backend [] two_lines) 0 good_row) = Inr (Some (MFloat (Fin 500)))
   \<and> build_document (demo_backend [] two_lines) 0 bad_row
       = Inl (ValueError ''could not convert string to float'')"
  by (simp add: build_eval nan_row_def good_row_def bad_row_def demo_backend_def text_eval
        Let_def)

text \<open>
  Where the label cell is not a text, the record holds what the builder is written to
  hold: each of the labels \<open>clean_dose\<close>, \<open>clean_frequency\<close>, \<open>clean_duration\<close> is
  stored as a float, 0 when the column is absent or the cell is missing, the number
  itself when the cell is a number, and never NaN.
\<close>

lemma build_document_numeric_labels:
  assumes built: "build_document be idx r = Inr doc"
    and key: "key = ''clean_dose'' \<or> key = ''clean_frequency'' \<or> key = ''clean_duration''"
  shows "\<exists>x. map_of (metadata doc) key = Some (MFloat x)
     \<and> (map_of r key = None \<or> map_of r key = Some NA \<longrightarrow> x = Fin 0)
     \<and> (\<forall>q. map_of r key = Some (Number q) \<longrightarrow> x = Fin q)
     \<and> (\<forall>t. map_of r key \<noteq> Some (Other t))
     \<and> ((\<forall>s. map_of r key \<noteq> Some (Text s)) \<longrightarrow> x \<noteq> NaN)"
proof -
  from build_document_Inr_D [OF built] obtain dose frequency duration where
    d: "py_float be (nan_to_zero (row_get r ''clean_dose'' (Number 0))) = Inr dose"
    and f: "py_float be (nan_to_zero (row_get r ''clean_frequency'' (Number 0))) = Inr frequency"
    and u: "py_float be (nan_to_zero (row_get r ''clean_duration'' (Number 0))) = Inr duration"
    and md: "map_of (metadata doc) ''clean_dose'' = Some (MFloat dose)"
    and mf: "map_of (metadata doc) ''clean_frequency'' = Some (MFloat frequency)"
    and mu: "map_of (metadata doc) ''clean_duration'' = Some (MFloat duration)"
    by blast
  from key consider "key = ''clean_dose''" | "key = ''clean_frequency''" | "key = ''clean_duration''"
    by blast
  then show ?thesis
  proof cases
    case 1
    with py_float_label [OF d] md show ?thesis by blast
  next
    case 2
    with py_float_label [OF f] mf show ?thesis by blast
  next
    case 3
    with py_float_label [OF u] mu show ?thesis by blast
  qed
qed

subsection \<open>Skipping rows\<close>

text \<open>
  C6: for every reference dataset that loads, the loop over the rows never stops early:
  it returns the records of exactly the rows whose construction did not raise, in row
  order. The build raises its \<open>No valid documents\<close> error if and only if there is no such
  record (the embedding being assumed not to raise that very error); with at least one
  record and an embedding pass that succeeds, the build succeeds and the index holds
  exactly these records.
\<close>

theorem build_vector_db_skips_bad_rows:
  assumes load: "read_excel be path = Inr ref_df"
    and docs: "documents = concat (map (\<lambda>(idx, r). case build_document be idx r of
                                    Inr doc \<Rightarrow> [doc] | Inl e \<Rightarrow> []) (enumerate 0 ref_df))"
    and own: "embed_all be (map page_content documents) \<noteq> Inl no_valid_documents"
  shows "build_documents be (enumerate 0 ref_df) [] 0 = Inr (documents, length documents)
     \<and> (fst (build_vector_db be path dir fs) = Inl no_valid_documents \<longleftrightarrow> documents = [])
     \<and> (\<forall>vectors. documents \<noteq> [] \<longrightarrow> embed_all be (map page_content documents) = Inr vectors \<longrightarrow>
           (\<exists>index. fst (build_vector_db be path dir fs) = Inr index
                    \<and> map snd index = documents))"
proof (intro conjI allI impI)
  show "build_documents be (enumerate 0 ref_df) [] 0 = Inr (documents, length documents)"
    by (simp add: build_documents_successes docs)
  note cases = build_vector_db_cases [OF load docs]
  show "fst (build_vector_db be path dir fs) = Inl no_valid_documents \<longleftrightarrow> documents = []"
  proof
    assume raised: "fst (build_vector_db be path dir fs) = Inl no_valid_documents"
    show "documents = []"
    proof (rule ccontr)
      assume ne: "documents \<noteq> []"
      show False
      proof (cases "embed_all be (map page_content documents)")
        case (Inl e)
        from cases(2) [OF ne Inl, of dir fs] raised own Inl show False by simp
      next
        case (Inr vectors)
        from cases(3) [OF ne Inr, of dir fs] raised show False by simp
      qed
    qed
  next
    assume "documents = []"
    from cases(1) [OF this, of dir fs] show "fst (build_vector_db be path dir fs) = Inl no_valid_documents"
      by simp
  qed
  fix vectors
  assume ne: "documents \<noteq> []"
    and emb: "embed_all be (map page_content documents) = Inr vectors"
  from cases(3) [OF ne emb, of dir fs] map_snd_zip_embed [OF emb]
  show "\<exists>index. fst (build_vector_db be path dir fs) = Inr index \<and> map snd index = documents"
    by simp
qed

theorem build_vector_db_skips_bad_rows_witness:
  "read_excel (demo_backend [good_row, bad_row, good_row] two_lines) ''reference.xlsx''
     = Inr [good_row, bad_row, good_row]
   \<and> map_sum id length
       (fst (build_vector_db (demo_backend [good_row, bad_row, good_row] two_lines)
               ''reference.xlsx'' ''./chroma_db'' Map.empty)) = Inr 2
   \<and> fst (build_vector_db (demo_backend [bad_row, bad_row] two_lines)
               ''reference.xlsx'' ''./chroma_db'' Map.empty) = Inl no_valid_documents"
proof -
  let ?be = "demo_backend [good_row, bad_row, good_row] two_lines"
  let ?docs = "concat (map (\<lambda>(idx, r). case build_document ?be idx r of
                   Inr doc \<Rightarrow> [doc] | Inl e \<Rightarrow> []) (enumerate 0 [good_row, bad_row, good_row]))"
  have load: "read_excel ?be ''reference.xlsx'' = Inr [good_row, bad_row, good_row]"
    by (simp add: demo_backend_def)
  have own: "embed_all ?be (map page_content ?docs) \<noteq> Inl no_valid_documents"
    by (simp only: embed_all_demo) simp
  obtain d0 d2 where d0: "build_document ?be 0 good_row = Inr d0"
    and d2: "build_document ?be (Suc (Suc 0)) good_row = Inr d2"
    using build_document_good_row by blast
  have docs: "?docs = [d0, d2]"
    by (simp add: d0 d2 build_document_bad_row)
  have ne: "?docs \<noteq> []" by (simp only: docs) simp
  have emb: "embed_all ?be (map page_content ?docs) = Inr [(), ()]"
    by (simp only: embed_all_demo docs) (simp add: numeral_2_eq_2)
  from build_vector_db_skips_bad_rows [OF load refl own, of "''./chroma_db''" Map.empty] ne emb
  obtain index where
    "fst (build_vector_db ?be ''reference.xlsx'' ''./chroma_db'' Map.empty) = Inr index"
    and "map snd index = ?docs"
    by blast
  then have two: "map_sum id length
       (fst (build_vector_db ?be ''reference.xlsx'' ''./chroma_db'' Map.empty)) = Inr 2"
    using docs by (metis length_map list.size(3,4) map_sum.simps(2) One_nat_def Suc_1 add.right_neutral add_Suc_right)
  let ?be2 = "demo_backend [bad_row, bad_row] two_lines"
  have load2: "read_excel ?be2 ''reference.xlsx'' = Inr [bad_row, bad_row]"
    by (simp add: demo_backend_def)
  have own2: "embed_all ?be2 (map page_content
       (concat (map (\<lambda>(idx, r). case build_document ?be2 idx r of
                   Inr doc \<Rightarrow> [doc] | Inl e \<Rightarrow> []) (enumerate 0 [bad_row, bad_row]))))
       \<noteq> Inl no_valid_documents"
    by (simp only: embed_all_demo) simp
  have none: "concat (map (\<lambda>(idx, r). case build_document ?be2 idx r of
                   Inr doc \<Rightarrow> [doc] | Inl e \<Rightarrow> []) (enumerate 0 [bad_row, bad_row])) = []"
    by (simp add: build_document_bad_row)
  from build_vector_db_skips_bad_rows [OF load2 refl own2, of "''./chroma_db''" Map.empty] none
  have "fst (build_vector_db ?be2 ''reference.xlsx'' ''./chroma_db'' Map.empty)
        = Inl no_valid_documents"
    by blast
  with load two show ?thesis by blast
qed

subsection \<open>The persisted index is replaced\<close>

text \<open>
  C8: for every build whose reference data loads: with no valid record the build raises
  and the store is untouched, nothing is written; with at least one record, what the
  target directory held before plays no part: the build gives the same result and the
  same store as on a store without that directory. When the embedding succeeds the
  directory holds exactly the new records; when it raises the directory holds an empty
  index. Nothing of an earlier index is kept or merged.
\<close>

theorem build_vector_db_replaces_index:
  assumes load: "read_excel be path = Inr ref_df"
    and docs: "documents = concat (map (\<lambda>(idx, r). case build_document be idx r of
                                    Inr doc \<Rightarrow> [doc] | Inl e \<Rightarrow> []) (enumerate 0 ref_df))"
  shows "(documents = [] \<longrightarrow> build_vector_db be path dir fs = (Inl no_valid_documents, fs))
     \<and> (documents \<noteq> [] \<longrightarrow>
           build_vector_db be path dir fs = build_vector_db be path dir (fs(dir := None)))
     \<and> (\<forall>vectors. documents \<noteq> [] \<longrightarrow>
           embed_all be (map page_content documents) = Inr vectors \<longrightarrow>
           build_vector_db be path dir fs
             = (Inr (zip vectors documents), fs(dir \<mapsto> zip vectors documents))
           \<and> map snd (zip vectors documents) = documents)
     \<and> (\<forall>e. documents \<noteq> [] \<longrightarrow> embed_all be (map page_content documents) = Inl e \<longrightarrow>
           build_vector_db be path dir fs = (Inl e, fs(dir \<mapsto> [])))"
proof (intro conjI allI impI)
  assume "documents = []"
  then show "build_vector_db be path dir fs = (Inl no_valid_documents, fs)"
    by (rule build_vector_db_cases(1) [OF load docs])
next
  assume ne: "documents \<noteq> []"
  show "build_vector_db be path dir fs = build_vector_db be path dir (fs(dir := None))"
  proof (cases "embed_all be (map page_content documents)")
    case (Inl e)
    from build_vector_db_cases(2) [OF load docs ne Inl, of dir fs]
         build_vector_db_cases(2) [OF load docs ne Inl, of dir "fs(dir := None)"]
    show ?thesis by simp
  next
    case (Inr vectors)
    from build_vector_db_cases(3) [OF load docs ne Inr, of dir fs]
         build_vector_db_cases(3) [OF load docs ne Inr, of dir "fs(dir := None)"]
    show ?thesis by simp
  qed
next
  fix vectors
  assume ne: "documents \<noteq> []"
    and emb: "embed_all be (map page_content documents) = Inr vectors"
  show "build_vector_db be path dir fs
             = (Inr (zip vectors documents), fs(dir \<mapsto> zip vectors documents))"
    by (rule build_vector_db_cases(3) [OF load docs ne emb])
  show "map snd (zip vectors documents) = documents"
    by (rule map_snd_zip_embed [OF emb])
next
  fix e
  assume ne: "documents \<noteq> []"
    and emb: "embed_all be (map page_content documents) = Inl e"
  show "build_vector_db be path dir fs = (Inl e, fs(dir \<mapsto> []))"
    by (rule build_vector_db_cases(2) [OF load docs ne emb])
qed

theorem build_vector_db_replaces_index_witness:
  "\<exists>doc. build_vector_db (demo_backend [good_row] two_lines) ''reference.xlsx'' ''./chroma_db''
            [''./chroma_db'' \<mapsto> old_index]
          = (Inr [((), doc)], [''./chroma_db'' \<mapsto> [((), doc)]])
     \<and> fst (from_documents (demo_backend [good_row] two_lines) [doc] ''./chroma_db''
              [''./chroma_db'' \<mapsto> old_index])
          = Inr (old_index @ [((), doc)])"
proof -
  let ?be = "demo_backend [good_row] two_lines"
  let ?docs = "concat (map (\<lambda>(idx, r). case build_document ?be idx r of
                   Inr doc \<Rightarrow> [doc] | Inl e \<Rightarrow> []) (enumerate 0 [good_row]))"
  have load: "read_excel ?be ''reference.xlsx'' = Inr [good_row]"
    by (simp add: demo_backend_def)
  obtain doc where d: "build_document ?be 0 good_row = Inr doc"
    using build_document_good_row by blast
  have docs: "?docs = [doc]" by (simp add: d)
  have ne: "?docs \<noteq> []" by (simp only: docs) simp
  have emb: "embed_all ?be (map page_content ?docs) = Inr [()]"
    by (simp only: embed_all_demo docs) simp
  from build_vector_db_replaces_index
         [OF load refl, of "''./chroma_db''" "[''./chroma_db'' \<mapsto> old_index]"] ne emb
  have "build_vector_db ?be ''reference.xlsx'' ''./chroma_db'' [''./chroma_db'' \<mapsto> old_index]
        = (Inr (zip [()] ?docs), [''./chroma_db'' \<mapsto> old_index](''./chroma_db'' \<mapsto> zip [()] ?docs))"
    by blast
  then have build: "build_vector_db ?be ''reference.xlsx'' ''./chroma_db''
            [''./chroma_db'' \<mapsto> old_index]
          = (Inr [((), doc)], [''./chroma_db'' \<mapsto> [((), doc)]])"
    by (simp only: docs) simp
  have merge: "fst (from_documents ?be [doc] ''./chroma_db'' [''./chroma_db'' \<mapsto> old_index])
          = Inr (old_index @ [((), doc)])"
  proof -
    have "embed_all ?be [page_content doc] = Inr [()]"
      by (simp only: embed_all_demo) simp
    then show ?thesis
      by (simp add: from_documents_def Let_def del: embed_all.simps)
  qed
  from build merge show ?thesis by blast
qed

end
